theory Spec2Isabelle
  imports Complex_Main
begin

section \<open>The reward dialog: \<open>randomDistribute\<close>\<close>

text \<open>
  The source under study:
  \<^verbatim>\<open>
  function randomDistribute(amount: number, people: number): number[] {
    const points = _.sortBy(_.times(people - 1, () => Math.random()))
    points.push(1)
    points.unshift(0)

    const amounts = points
      .slice(1)
      .map((point, index) => point - points[index])
      .map((fraction) => _.round(amount * fraction, 2))

    const diff = _.round(amount - _.sum(amounts), 2)
    amounts[amounts.length - 1] += diff

    return amounts
  }
  \<close>
  The function is modelled twice. In this section numbers are exact reals: \<open>+\<close>,
  \<open>-\<close> and \<open>*\<close> are the arithmetic of \<^typ>\<open>real\<close> and \<open>_.round\<close> rounds the exact
  value. This model carries the structure of the computation: lengths, which entry is
  which expression, signs. The section after it models the same lines on IEEE-754
  doubles, the numbers the code really computes with; the values the code returns
  at concrete inputs are evaluated there. \<open>people\<close> is an \<^typ>\<open>int\<close> (the caller
  passes \<open>users.length\<close>). The ambient random source is a parameter \<open>rnd\<close>:
  \<open>rnd i\<close> is the value of the \<open>i\<close>-th call of \<open>Math.random()\<close>.
\<close>

subsection \<open>The library functions the source calls\<close>

text \<open>
  \<open>_.times(n, f)\<close> calls \<open>f\<close> for the indices \<open>0 .. n - 1\<close> and collects the results;
  for \<open>n < 1\<close> it returns the empty array. (The library also caps the result at the
  largest array length; \<open>people\<close> is itself an array length, so \<open>people - 1\<close> stays
  below the cap.)
\<close>

definition lodash_times :: "int \<Rightarrow> (nat \<Rightarrow> 'a) \<Rightarrow> 'a list" where
  "lodash_times n iteratee = (if n < 1 then [] else map iteratee [0..<nat n])"

text \<open>\<open>_.sortBy(xs)\<close> on numbers: a new array, sorted ascending.\<close>

definition lodash_sortBy :: "real list \<Rightarrow> real list" where
  "lodash_sortBy xs = sort xs"

text \<open>\<open>Math.round\<close>: the nearest integer, a tie going to the larger one.\<close>

definition Math_round :: "real \<Rightarrow> int" where
  "Math_round x = \<lfloor>x + 1 / 2\<rfloor>"

text \<open>
  \<open>_.round(x, precision)\<close> shifts the decimal point by \<open>precision\<close> places, applies
  \<open>Math.round\<close> and shifts back.
\<close>

definition lodash_round :: "real \<Rightarrow> nat \<Rightarrow> real" where
  "lodash_round x precision = real_of_int (Math_round (x * 10 ^ precision)) / 10 ^ precision"

text \<open>\<open>_.sum(xs)\<close>: the sum of the entries, \<open>0\<close> for the empty array.\<close>

definition lodash_sum :: "real list \<Rightarrow> real" where
  "lodash_sum xs = sum_list xs"

subsection \<open>The function, step by step\<close>

text \<open>Line 25 to 27: the sorted draws, then \<open>push(1)\<close>, then \<open>unshift(0)\<close>.\<close>

definition points :: "int \<Rightarrow> (nat \<Rightarrow> real) \<Rightarrow> real list" where
  "points people rnd = 0 # (lodash_sortBy (lodash_times (people - 1) rnd) @ [1])"

text \<open>
  Line 29 to 31: \<open>points.slice(1).map((point, index) => point - points[index])\<close>.
  \<open>index\<close> counts the entries of the slice from \<open>0\<close>, so \<open>points[index]\<close> is the
  point just before \<open>point\<close>.
\<close>

definition fractions :: "real list \<Rightarrow> real list" where
  "fractions pts = map (\<lambda>(index, point). point - pts ! index) (enumerate 0 (drop 1 pts))"

text \<open>Line 29 to 32: the shares before the residual is added.\<close>

definition rawAmounts :: "real \<Rightarrow> int \<Rightarrow> (nat \<Rightarrow> real) \<Rightarrow> real list" where
  "rawAmounts amount people rnd =
     map (\<lambda>fraction. lodash_round (amount * fraction) 2) (fractions (points people rnd))"

text \<open>Line 34: the residual.\<close>

definition diff :: "real \<Rightarrow> real list \<Rightarrow> real" where
  "diff amount amounts = lodash_round (amount - lodash_sum amounts) 2"

text \<open>
  Line 35: \<open>amounts[amounts.length - 1] += diff\<close>. On an empty array JavaScript would
  write a property \<open>-1\<close> and leave the array empty; \<open>[][0 := v] = []\<close> agrees with that.
  The addition is exact here; \<open>addToLast_double\<close> below rounds it as the code does.
\<close>

definition addToLast :: "real list \<Rightarrow> real \<Rightarrow> real list" where
  "addToLast amounts d =
     amounts[length amounts - 1 := amounts ! (length amounts - 1) + d]"

definition randomDistribute :: "real \<Rightarrow> int \<Rightarrow> (nat \<Rightarrow> real) \<Rightarrow> real list" where
  "randomDistribute amount people rnd =
     (let amounts = rawAmounts amount people rnd
      in addToLast amounts (diff amount amounts))"

text \<open>The draws the claims range over: the first \<open>n\<close> calls return values in \<open>[0, 1)\<close>.\<close>

definition draws_in_unit :: "nat \<Rightarrow> (nat \<Rightarrow> real) \<Rightarrow> bool" where
  "draws_in_unit n rnd = (\<forall>i \<in> {0..<n}. 0 \<le> rnd i \<and> rnd i < 1)"

text \<open>
  Two concrete random sources for the examples below: one whose draws come out
  ascending (\<open>0.3, 0.6, 0.9, 0.9, ...\<close>) and one whose first two draws come out
  descending (\<open>0.7, 0.2, 0.2, ...\<close>), so that sorting matters.
\<close>

definition ascending_draws :: "nat \<Rightarrow> real" where
  "ascending_draws i = (if i = 0 then 3 / 10 else if i = 1 then 6 / 10 else 9 / 10)"

definition descending_draws :: "nat \<Rightarrow> real" where
  "descending_draws i = (if i = 0 then 7 / 10 else 2 / 10)"

section \<open>\<open>randomDistribute\<close> on doubles\<close>

subsection \<open>Rounding to a double\<close>

text \<open>
  A JavaScript number is an IEEE-754 binary64 value. A finite double is modelled as the
  real it denotes, and every arithmetic operation returns the double nearest to the
  exact result, a tie going to the even significand. Overflow to \<open>Infinity\<close>, \<open>NaN\<close>
  and the sign of zero are not modelled; none of them arises below.

  \<open>ilog b n\<close> is the integer part of the logarithm of \<open>n \<ge> 1\<close> to the base \<open>b\<close>,
  and \<open>expo b x\<close> the exponent \<open>e\<close> with \<open>b ^ e \<le> x < b ^ (e + 1)\<close> of a real
  \<open>x > 0\<close>. \<open>scale b k\<close> is \<open>b ^ k\<close> for an integer \<open>k\<close>, negative ones included.
\<close>

function ilog :: "nat \<Rightarrow> nat \<Rightarrow> nat" where
  "ilog b n = (if n < b \<or> b < 2 then 0 else Suc (ilog b (n div b)))"
  by pat_completeness auto
termination
  by (relation "measure snd") auto

declare ilog.simps [simp del]

definition expo :: "nat \<Rightarrow> real \<Rightarrow> int" where
  "expo b x = (if 1 \<le> x then int (ilog b (nat \<lfloor>x\<rfloor>))
               else - int (ilog b (nat (\<lceil>1 / x\<rceil> - 1))) - 1)"

definition scale :: "nat \<Rightarrow> int \<Rightarrow> real" where
  "scale b k = (if 0 \<le> k then real b ^ nat k else 1 / real b ^ nat (- k))"

text \<open>
  The spacing of the doubles around \<open>x\<close>: 52 fraction bits below the leading bit, and
  the fixed spacing \<open>2 ^ (-1074)\<close> of the subnormal range.
\<close>

definition ulp :: "real \<Rightarrow> real" where
  "ulp x = scale 2 (max (expo 2 \<bar>x\<bar>) (- 1022) - 52)"

text \<open>\<open>ties_to_even r f\<close> rounds \<open>r\<close> to an integer, given its floor \<open>f\<close>.\<close>

definition ties_to_even :: "real \<Rightarrow> int \<Rightarrow> int" where
  "ties_to_even r f =
     (if r - real_of_int f < 1 / 2 then f
      else if 1 / 2 < r - real_of_int f then f + 1
      else if even f then f else f + 1)"

definition roundTiesToEven :: "real \<Rightarrow> int" where
  "roundTiesToEven r = ties_to_even r \<lfloor>r\<rfloor>"

definition in_units :: "real \<Rightarrow> real \<Rightarrow> real" where
  "in_units u x = real_of_int (roundTiesToEven (x / u)) * u"

definition to_double :: "real \<Rightarrow> real" where
  "to_double x = (if x = 0 then 0 else in_units (ulp x) x)"

subsection \<open>The decimal form of a double\<close>

text \<open>
  \<open>_.round\<close> works on the string form of its argument. For a double \<open>x\<close> the language
  prints the decimal \<open>s * 10 ^ (n - k)\<close> with the fewest digits \<open>k\<close> that reads back as \<open>x\<close>;
  among several with that many digits the one nearest to \<open>x\<close>, and the even \<open>s\<close> at a
  tie. \<open>toString x\<close> is the value of that decimal. For \<open>k\<close> digits the unit is
  \<open>q = 10 ^ (n - k)\<close>, where \<open>n = expo 10 x + 1\<close>, and only the two multiples of \<open>q\<close> around
  \<open>x\<close> can be nearest to it; 17 digits always suffice.
\<close>

definition around :: "real \<Rightarrow> int \<Rightarrow> real \<times> real" where
  "around q s = (real_of_int s * q, real_of_int s * q + q)"

definition neighbours :: "real \<Rightarrow> real \<Rightarrow> real \<times> real" where
  "neighbours q x = around q \<lfloor>x / q\<rfloor>"

definition pick :: "real \<Rightarrow> real \<Rightarrow> real \<Rightarrow> real \<Rightarrow> bool \<Rightarrow> bool \<Rightarrow> real option" where
  "pick q x lo hi lo_ok hi_ok =
     (if lo_ok \<and> hi_ok
      then (if x - lo < hi - x then Some lo else if hi - x < x - lo then Some hi
            else if even \<lfloor>lo / q\<rfloor> then Some lo else Some hi)
      else if lo_ok then Some lo
      else if hi_ok then Some hi
      else None)"

definition digits_at :: "real \<Rightarrow> real \<Rightarrow> real option" where
  "digits_at q x =
     (case neighbours q x of (lo, hi) \<Rightarrow> pick q x lo hi (to_double lo = x) (to_double hi = x))"

function shortest :: "nat \<Rightarrow> real \<Rightarrow> real" where
  "shortest k x =
     (if 17 < k then x
      else case digits_at (scale 10 (expo 10 x + 1 - int k)) x of
             Some v \<Rightarrow> v
           | None \<Rightarrow> shortest (Suc k) x)"
  by pat_completeness auto
termination
  by (relation "measure (\<lambda>(k, x). 18 - k)") auto

declare shortest.simps [simp del]

definition toString :: "real \<Rightarrow> real" where
  "toString x = (if x = 0 then 0 else if x < 0 then - shortest 1 (- x) else shortest 1 x)"

subsection \<open>The library functions on doubles\<close>

text \<open>
  \<open>_.round(number, precision)\<close>, for a finite number and a precision other than \<open>0\<close>:
  \<^verbatim>\<open>
  var pair = (toString(number) + 'e').split('e'),
      value = func(pair[0] + 'e' + (+pair[1] + precision));
  pair = (toString(value) + 'e').split('e');
  return +(pair[0] + 'e' + (+pair[1] - precision));
  \<close>
  with \<open>func = Math.round\<close>. The first string is the decimal form of \<open>number\<close> with
  its exponent raised by \<open>precision\<close>; read as a number it is the double nearest to
  \<open>toString number * 10 ^ precision\<close>. The second is the decimal form of the rounded
  value with its exponent lowered again.
\<close>

definition lodash_round_double :: "real \<Rightarrow> nat \<Rightarrow> real" where
  "lodash_round_double x precision =
     to_double (toString (real_of_int (Math_round (to_double (toString x * 10 ^ precision))))
                / 10 ^ precision)"

text \<open>
  \<open>_.sum(xs)\<close> is \<open>0\<close> for the empty array; otherwise it starts from the first entry
  and adds the others from left to right, each addition rounded.
\<close>

definition lodash_sum_double :: "real list \<Rightarrow> real" where
  "lodash_sum_double xs =
     (case xs of [] \<Rightarrow> 0 | x # rest \<Rightarrow> foldl (\<lambda>result current. to_double (result + current)) x rest)"

subsection \<open>The function, step by step\<close>

text \<open>
  Sorting, \<open>push(1)\<close> and \<open>unshift(0)\<close> do no arithmetic, so \<open>points\<close> is the one of
  the exact model. The subtraction at line 31, the product at line 32, the subtraction
  at line 34 and the addition at line 35 are each rounded to a double.
\<close>

definition fractions_double :: "real list \<Rightarrow> real list" where
  "fractions_double pts =
     map (\<lambda>(index, point). to_double (point - pts ! index)) (enumerate 0 (drop 1 pts))"

definition rawAmounts_double :: "real \<Rightarrow> int \<Rightarrow> (nat \<Rightarrow> real) \<Rightarrow> real list" where
  "rawAmounts_double amount people rnd =
     map (\<lambda>fraction. lodash_round_double (to_double (amount * fraction)) 2)
       (fractions_double (points people rnd))"

definition diff_double :: "real \<Rightarrow> real list \<Rightarrow> real" where
  "diff_double amount amounts =
     lodash_round_double (to_double (amount - lodash_sum_double amounts)) 2"

definition addToLast_double :: "real list \<Rightarrow> real \<Rightarrow> real list" where
  "addToLast_double amounts d =
     amounts[length amounts - 1 := to_double (amounts ! (length amounts - 1) + d)]"

definition randomDistribute_double :: "real \<Rightarrow> int \<Rightarrow> (nat \<Rightarrow> real) \<Rightarrow> real list" where
  "randomDistribute_double amount people rnd =
     (let amounts = rawAmounts_double amount people rnd
      in addToLast_double amounts (diff_double amount amounts))"

text \<open>A random source whose every draw is \<open>0.5\<close>.\<close>

definition half_draws :: "nat \<Rightarrow> real" where
  "half_draws i = 1 / 2"

section \<open>The pull request table: pagination\<close>

text \<open>
  \<^verbatim>\<open>
  const [page, setPage] = useState(1)
  const pageSize = 10
  const totalPages = Math.ceil((data?.pagination.totalCount || 0) / pageSize)
  ...
  onClick={() => setPage(1)}
  onClick={() => setPage((p) => Math.max(1, p - 1))}
  onClick={() => setPage((p) => Math.min(totalPages, p + 1))}
  onClick={() => setPage(totalPages)}
  \<close>
\<close>

definition pageSize :: int where
  "pageSize = 10"

text \<open>\<open>totalCount\<close> is \<open>None\<close> while no data has arrived; \<open>|| 0\<close> then gives \<open>0\<close>.\<close>

definition totalPages :: "int option \<Rightarrow> int" where
  "totalPages totalCount =
     \<lceil>real_of_int (case totalCount of None \<Rightarrow> 0 | Some c \<Rightarrow> c) / real_of_int pageSize\<rceil>"

text \<open>
  The four buttons and their handlers; \<open>pages\<close> is the value of \<open>totalPages\<close> of
  the render the handler belongs to, \<open>p\<close> the page state it is applied to.
\<close>

datatype button = First | Previous | Next | Last

fun onClick :: "button \<Rightarrow> int \<Rightarrow> int \<Rightarrow> int" where
  "onClick First pages p = 1"
| "onClick Previous pages p = max 1 (p - 1)"
| "onClick Next pages p = min pages (p + 1)"
| "onClick Last pages p = pages"

text \<open>A sequence of clicks during which \<open>totalPages\<close> stays the same.\<close>

definition clicks :: "button list \<Rightarrow> int \<Rightarrow> int \<Rightarrow> int" where
  "clicks bs pages p = fold (\<lambda>b. onClick b pages) bs p"

section \<open>Properties of \<open>randomDistribute\<close>\<close>

subsection \<open>Lengths\<close>

lemma length_lodash_times: "length (lodash_times n f) = (if n < 1 then 0 else nat n)"
  by (simp add: lodash_times_def)

lemma length_points: "length (points people rnd) = (if people < 2 then 2 else nat people + 1)"
  by (auto simp add: points_def lodash_sortBy_def length_lodash_times)

lemma length_fractions: "length (fractions pts) = length pts - 1"
  by (simp add: fractions_def)

lemma length_rawAmounts:
  "length (rawAmounts amount people rnd) = (if people < 2 then 1 else nat people)"
  by (simp add: rawAmounts_def length_fractions length_points)

lemma length_addToLast: "length (addToLast amounts d) = length amounts"
  by (simp add: addToLast_def)

lemma length_randomDistribute:
  "length (randomDistribute amount people rnd) = (if people < 2 then 1 else nat people)"
  by (simp add: randomDistribute_def Let_def length_addToLast length_rawAmounts)

lemma length_points_pos: "1 \<le> people \<Longrightarrow> length (points people rnd) = nat people + 1"
  by (auto simp add: length_points)

lemma length_rawAmounts_pos:
  "1 \<le> people \<Longrightarrow> length (rawAmounts amount people rnd) = nat people"
  by (auto simp add: length_rawAmounts)

subsection \<open>The example inputs\<close>

lemma ascending_draws_in_unit: "draws_in_unit (nat (4 - 1)) ascending_draws"
  by (simp add: draws_in_unit_def ascending_draws_def)

lemma descending_draws_in_unit: "draws_in_unit (nat (3 - 1)) descending_draws"
  by (simp add: draws_in_unit_def descending_draws_def)

subsection \<open>The number of entries\<close>

text \<open>
  Claim C4. For every amount \<open>\<ge> 0\<close>, every count \<open>\<ge> 1\<close> and every sequence of
  \<open>count - 1\<close> draws in \<open>[0, 1)\<close>, \<open>randomDistribute(amount, count)\<close> returns a
  vector with exactly \<open>count\<close> entries.
\<close>

theorem randomDistribute_length:
  assumes "0 \<le> amount" and "1 \<le> people" and "draws_in_unit (nat (people - 1)) rnd"
  shows "int (length (randomDistribute amount people rnd)) = people"
  using assms(2) by (auto simp add: length_randomDistribute)

theorem randomDistribute_length_witness:
  "(0::real) \<le> 100 \<and> (1::int) \<le> 3 \<and> draws_in_unit (nat (3 - 1)) descending_draws
   \<and> int (length (randomDistribute 100 3 descending_draws)) = 3"
proof -
  have "int (length (randomDistribute 100 3 descending_draws)) = 3"
    using randomDistribute_length [of 100 3 descending_draws] descending_draws_in_unit
    by simp
  with descending_draws_in_unit show ?thesis
    by simp
qed

subsection \<open>A count of zero\<close>

text \<open>
  Claim C3, as stated: with \<open>count = 0\<close> the function produces an empty result before
  the residual step and does not return a non-empty shares vector. It fails:
  \<open>_.times(-1, ...)\<close> is empty, but \<open>push(1)\<close> and \<open>unshift(0)\<close> still leave
  the boundary pair \<open>(0, 1)\<close>, so the vector before the residual step has one entry,
  and so has the result. For amount \<open>5\<close>:
\<close>

theorem randomDistribute_zero_people_counterexample:
  "rawAmounts 5 0 descending_draws \<noteq> [] \<and> randomDistribute 5 0 descending_draws = [5]"
  by (simp add: randomDistribute_def rawAmounts_def fractions_def points_def lodash_times_def
      lodash_sortBy_def lodash_round_def Math_round_def diff_def lodash_sum_def addToLast_def
      enumerate_eq_zip)

text \<open>
  Claim C3, amended. With \<open>count = 0\<close> (and any amount \<open>\<ge> 0\<close>) no random number is
  drawn, the vector before the residual step is the one-entry vector
  \<open>[round(amount, 2)]\<close>, and the function returns a one-entry vector, the same one as
  for \<open>count = 1\<close>; the result is not empty and its length is not \<open>count\<close>.
\<close>

theorem randomDistribute_zero_people:
  assumes "0 \<le> amount"
  shows "rawAmounts amount 0 rnd = [lodash_round amount 2]
       \<and> length (randomDistribute amount 0 rnd) = 1
       \<and> randomDistribute amount 0 rnd = randomDistribute amount 1 rnd'"
proof -
  have pts: "points 0 rnd = [0, 1]" "points 1 rnd' = [0, 1]"
    by (simp_all add: points_def lodash_times_def lodash_sortBy_def)
  have raw: "rawAmounts amount 0 rnd = [lodash_round amount 2]"
    by (simp add: rawAmounts_def pts fractions_def enumerate_eq_zip)
  have raw': "rawAmounts amount 1 rnd' = [lodash_round amount 2]"
    by (simp add: rawAmounts_def pts fractions_def enumerate_eq_zip)
  show ?thesis
    by (simp add: randomDistribute_def Let_def raw raw' length_addToLast)
qed

theorem randomDistribute_zero_people_witness:
  "(0::real) \<le> 5
   \<and> rawAmounts 5 0 ascending_draws = [lodash_round 5 2]
   \<and> length (randomDistribute 5 0 ascending_draws) = 1
   \<and> randomDistribute 5 0 ascending_draws = randomDistribute 5 1 descending_draws"
proof -
  have h: "(0::real) \<le> 5"
    by simp
  from randomDistribute_zero_people [OF h, of ascending_draws descending_draws] h
  show ?thesis
    by blast
qed

subsection \<open>The shares before the residual step\<close>

lemma points_eq:
  "1 \<le> people \<Longrightarrow> points people rnd = 0 # (sort (map rnd [0..<nat (people - 1)]) @ [1])"
  by (simp add: points_def lodash_sortBy_def lodash_times_def)

lemma nth_fractions:
  "i < length pts - 1 \<Longrightarrow> fractions pts ! i = pts ! Suc i - pts ! i"
  by (simp add: fractions_def nth_enumerate_eq)

lemma nth_rawAmounts:
  assumes "i < length (points people rnd) - 1"
  shows "rawAmounts amount people rnd ! i =
         lodash_round (amount * (points people rnd ! Suc i - points people rnd ! i)) 2"
  using assms by (simp add: rawAmounts_def length_fractions nth_fractions)

lemma sorted_boundaries:
  assumes "\<forall>x \<in> set ds. 0 \<le> x \<and> x < (1::real)"
  shows "sorted (0 # (sort ds @ [1]))"
  using assms by (auto simp add: sorted_append less_imp_le)

lemma set_draws:
  assumes "draws_in_unit n rnd"
  shows "\<forall>x \<in> set (map rnd [0..<n]). 0 \<le> x \<and> x < 1"
  using assms by (auto simp add: draws_in_unit_def)

lemmas evaluate = randomDistribute_def rawAmounts_def fractions_def points_def
  lodash_times_def lodash_sortBy_def lodash_round_def Math_round_def diff_def lodash_sum_def
  addToLast_def enumerate_eq_zip ascending_draws_def descending_draws_def upt_conv_Cons

text \<open>
  Claim C7. For every amount \<open>\<ge> 0\<close>, every count \<open>\<ge> 1\<close> and every sequence of
  \<open>count - 1\<close> draws in \<open>[0, 1)\<close>: let \<open>p 0 \<le> ... \<le> p count\<close> be the draws sorted
  ascending with \<open>0\<close> prepended and \<open>1\<close> appended (\<open>count + 1\<close> boundary points); then
  the \<open>i\<close>-th raw share is \<open>round(amount * (p (i + 1) - p i), 2)\<close> for each \<open>i\<close>
  from \<open>0\<close> to \<open>count - 1\<close>.
\<close>

theorem rawAmounts_boundaries:
  assumes "0 \<le> amount" and "1 \<le> people" and "draws_in_unit (nat (people - 1)) rnd"
  shows "let p = 0 # (sort (map rnd [0..<nat (people - 1)]) @ [1])
         in int (length p) = people + 1 \<and> sorted p
          \<and> int (length (rawAmounts amount people rnd)) = people
          \<and> (\<forall>i < nat people.
                rawAmounts amount people rnd ! i = lodash_round (amount * (p ! (i + 1) - p ! i)) 2)"
proof -
  let ?p = "0 # (sort (map rnd [0..<nat (people - 1)]) @ [1])"
  have p: "points people rnd = ?p"
    using assms(2) by (rule points_eq)
  have len: "int (length ?p) = people + 1"
    using assms(2) by simp
  have srt: "sorted ?p"
    using set_draws [OF assms(3)] by (rule sorted_boundaries)
  have raw: "int (length (rawAmounts amount people rnd)) = people"
    using assms(2) by (simp add: length_rawAmounts_pos)
  have nth: "rawAmounts amount people rnd ! i = lodash_round (amount * (?p ! (i + 1) - ?p ! i)) 2"
    if "i < nat people" for i
  proof -
    from that assms(2) have "i < length (points people rnd) - 1"
      by (simp add: length_points_pos)
    then show ?thesis
      using nth_rawAmounts [of i people rnd amount] by (simp only: p Suc_eq_plus1)
  qed
  show ?thesis
    unfolding Let_def using len srt raw nth by blast
qed

theorem rawAmounts_boundaries_witness:
  "(0::real) \<le> 100 \<and> (1::int) \<le> 3 \<and> draws_in_unit (nat (3 - 1)) descending_draws
   \<and> 0 # (sort (map descending_draws [0..<nat (3 - 1)]) @ [1]) = [0, 2 / 10, 7 / 10, 1]
   \<and> rawAmounts 100 3 descending_draws = [20, 50, 30]
   \<and> (let p = 0 # (sort (map descending_draws [0..<nat (3 - 1)]) @ [1])
         in int (length p) = 3 + 1 \<and> sorted p
          \<and> int (length (rawAmounts 100 3 descending_draws)) = 3
          \<and> (\<forall>i < nat 3.
                rawAmounts 100 3 descending_draws ! i = lodash_round (100 * (p ! (i + 1) - p ! i)) 2))"
proof -
  have h: "(0::real) \<le> 100" "(1::int) \<le> 3"
    by simp_all
  have e: "0 # (sort (map descending_draws [0..<nat (3 - 1)]) @ [1]) = [0, 2 / 10, 7 / 10, 1]"
    "rawAmounts 100 3 descending_draws = [20, 50, 30]"
    by (simp_all add: evaluate)
  from rawAmounts_boundaries [OF h descending_draws_in_unit] h descending_draws_in_unit e
  show ?thesis
    by blast
qed

subsection \<open>The residual step\<close>

lemma nth_addToLast:
  "i < length amounts \<Longrightarrow>
   addToLast amounts d ! i = (if i = length amounts - 1 then amounts ! i + d else amounts ! i)"
  by (simp add: addToLast_def nth_list_update)

text \<open>
  Claim C8. For every amount \<open>\<ge> 0\<close>, every count \<open>\<ge> 1\<close> and every sequence of
  \<open>count - 1\<close> draws in \<open>[0, 1)\<close>, the residual step changes the last entry only: for
  each \<open>i\<close> from \<open>0\<close> to \<open>count - 2\<close> the \<open>i\<close>-th returned entry is the \<open>i\<close>-th raw
  share, and the last returned entry is the last raw share plus
  \<open>round(amount - sum(raw shares), 2)\<close>.
\<close>

theorem residual_only_last:
  assumes "0 \<le> amount" and "1 \<le> people" and "draws_in_unit (nat (people - 1)) rnd"
  shows "(\<forall>i < nat people - 1.
            randomDistribute amount people rnd ! i = rawAmounts amount people rnd ! i)
       \<and> randomDistribute amount people rnd ! (nat people - 1) =
           rawAmounts amount people rnd ! (nat people - 1)
           + lodash_round (amount - sum_list (rawAmounts amount people rnd)) 2"
proof -
  have len: "length (rawAmounts amount people rnd) = nat people"
    using assms(2) by (rule length_rawAmounts_pos)
  have pos: "0 < nat people"
    using assms(2) by simp
  show ?thesis
    using pos
    by (simp add: randomDistribute_def Let_def nth_addToLast len diff_def lodash_sum_def)
qed

theorem residual_only_last_witness:
  "(0::real) \<le> 2 / 100 \<and> (1::int) \<le> 4 \<and> draws_in_unit (nat (4 - 1)) ascending_draws
   \<and> rawAmounts (2 / 100) 4 ascending_draws = [1 / 100, 1 / 100, 1 / 100, 0]
   \<and> lodash_round (2 / 100 - sum_list (rawAmounts (2 / 100) 4 ascending_draws)) 2 = - (1 / 100)
   \<and> randomDistribute (2 / 100) 4 ascending_draws ! 0 = rawAmounts (2 / 100) 4 ascending_draws ! 0
   \<and> randomDistribute (2 / 100) 4 ascending_draws ! 1 = rawAmounts (2 / 100) 4 ascending_draws ! 1
   \<and> randomDistribute (2 / 100) 4 ascending_draws ! 2 = rawAmounts (2 / 100) 4 ascending_draws ! 2
   \<and> randomDistribute (2 / 100) 4 ascending_draws ! 3 =
       rawAmounts (2 / 100) 4 ascending_draws ! 3
       + lodash_round (2 / 100 - sum_list (rawAmounts (2 / 100) 4 ascending_draws)) 2"
proof -
  have h: "(0::real) \<le> 2 / 100" "(1::int) \<le> 4"
    by simp_all
  have e: "rawAmounts (2 / 100) 4 ascending_draws = [1 / 100, 1 / 100, 1 / 100, 0]"
    by (simp add: evaluate)
  have d: "lodash_round (2 / 100 - sum_list (rawAmounts (2 / 100) 4 ascending_draws)) 2 = - (1 / 100)"
    unfolding e by (simp add: lodash_round_def Math_round_def)
  have n: "nat 4 - 1 = 3" "(0::nat) < 3" "(1::nat) < 3" "(2::nat) < 3"
    by simp_all
  from residual_only_last [OF h ascending_draws_in_unit] h ascending_draws_in_unit e d
  show ?thesis
    unfolding n(1) using n(2-4) by blast
qed

subsection \<open>The sign of the entries\<close>

text \<open>
  The raw shares are \<open>\<ge> 0\<close>, since the boundary points are sorted, and so is
  every returned entry before the last.
\<close>

lemma lodash_round_nonneg: "0 \<le> x \<Longrightarrow> 0 \<le> lodash_round x p"
  by (simp add: lodash_round_def Math_round_def)

lemma rawAmounts_nonneg:
  assumes "0 \<le> amount" and "1 \<le> people" and "draws_in_unit (nat (people - 1)) rnd"
    and "i < nat people"
  shows "0 \<le> rawAmounts amount people rnd ! i"
proof -
  let ?p = "points people rnd"
  have len: "length ?p = nat people + 1"
    using assms(2) by (rule length_points_pos)
  have "sorted ?p"
    using set_draws [OF assms(3)] by (simp only: points_eq [OF assms(2)] sorted_boundaries)
  then have "?p ! i \<le> ?p ! Suc i"
    using assms(4) len by (simp add: sorted_iff_nth_mono)
  then have "0 \<le> amount * (?p ! Suc i - ?p ! i)"
    using assms(1) by simp
  then have "0 \<le> lodash_round (amount * (?p ! Suc i - ?p ! i)) 2"
    by (rule lodash_round_nonneg)
  moreover have "i < length ?p - 1"
    using assms(4) len by simp
  ultimately show ?thesis
    by (simp only: nth_rawAmounts)
qed

lemma front_entries_nonneg:
  assumes "0 \<le> amount" and "1 \<le> people" and "draws_in_unit (nat (people - 1)) rnd"
    and "i < nat people - 1"
  shows "0 \<le> randomDistribute amount people rnd ! i"
proof -
  have len: "length (rawAmounts amount people rnd) = nat people"
    using assms(2) by (rule length_rawAmounts_pos)
  from assms(4) have "i < nat people"
    by simp
  from rawAmounts_nonneg [OF assms(1-3) this] assms(4) show ?thesis
    by (simp add: randomDistribute_def Let_def nth_addToLast len)
qed

text \<open>
  Claim C2 says that every returned entry is \<open>\<ge> 0\<close>, the last one included. The
  residual, however, is added to the last share whatever its size. For the
  amount \<open>0.02\<close>, four people and the draws \<open>0.3, 0.6, 0.9\<close> the fractions are
  \<open>0.3, 0.3, 0.3, 0.1\<close>, the raw shares \<open>0.01, 0.01, 0.01, 0\<close> (three times \<open>0.006\<close>
  rounded up, \<open>0.002\<close> rounded down), the residual \<open>round(0.02 - 0.03, 2) = -0.01\<close>,
  and the last entry returned is \<open>-0.01\<close>.
\<close>

theorem randomDistribute_negative_entry:
  "map ascending_draws [0..<3] = [3 / 10, 6 / 10, 9 / 10]
   \<and> randomDistribute (2 / 100) 4 ascending_draws = [1 / 100, 1 / 100, 1 / 100, - (1 / 100)]"
  by (simp add: evaluate)

subsection \<open>An amount of zero\<close>

lemma lodash_round_0: "lodash_round 0 p = 0"
  by (simp add: lodash_round_def Math_round_def)

lemma addToLast_0: "addToLast amounts 0 = amounts"
  by (simp add: addToLast_def)

text \<open>
  Claim C6. For every count \<open>n \<ge> 1\<close> and every sequence of \<open>n - 1\<close> draws in
  \<open>[0, 1)\<close>, \<open>randomDistribute(0, n)\<close> returns a vector of \<open>n\<close> zeros.
\<close>

theorem randomDistribute_zero_amount:
  assumes "1 \<le> n" and "draws_in_unit (nat (n - 1)) rnd"
  shows "randomDistribute 0 n rnd = replicate (nat n) 0"
proof -
  have "rawAmounts 0 n rnd = replicate (length (fractions (points n rnd))) 0"
    by (simp add: rawAmounts_def lodash_round_0 map_replicate_const)
  also have "length (fractions (points n rnd)) = nat n"
    using assms(1) by (simp add: length_fractions length_points_pos)
  finally have raw: "rawAmounts 0 n rnd = replicate (nat n) 0" .
  have "diff 0 (replicate (nat n) 0) = 0"
    by (simp add: diff_def lodash_sum_def sum_list_replicate lodash_round_0)
  with raw show ?thesis
    by (simp add: randomDistribute_def Let_def addToLast_0)
qed

theorem randomDistribute_zero_amount_witness:
  "(1::int) \<le> 4 \<and> draws_in_unit (nat (4 - 1)) ascending_draws
   \<and> randomDistribute 0 4 ascending_draws = [0, 0, 0, 0]"
proof -
  have h: "(1::int) \<le> 4"
    by simp
  from randomDistribute_zero_amount [OF h ascending_draws_in_unit]
  have "randomDistribute 0 4 ascending_draws = [0, 0, 0, 0]"
    by (simp add: numeral_eq_Suc)
  with h ascending_draws_in_unit show ?thesis
    by blast
qed

section \<open>Values of \<open>randomDistribute\<close> on doubles\<close>

text \<open>
  The caller passes \<open>Number(newValue)\<close>, the double nearest to the decimal typed into
  the form: \<open>to_double (1005 / 1000)\<close> for the input \<open>1.005\<close>.
\<close>

lemmas double_eval = ilog.simps expo_def scale_def ulp_def ties_to_even_def roundTiesToEven_def
  in_units_def to_double_def around_def neighbours_def pick_def digits_at_def shortest.simps
  toString_def lodash_round_double_def Math_round_def

subsection \<open>The doubles that occur\<close>

lemma to_double_1005: "to_double (1005 / 1000) = 1131529406376837 / 1125899906842624"
  by (simp add: double_eval)

lemma to_double_101: "to_double (101 / 100) = 4548635623644201 / 4503599627370496"
  by (simp add: double_eval)

lemma to_double_5: "to_double (5 / 100) = 3602879701896397 / 72057594037927936"
  by (simp add: double_eval)

lemma to_double_3: "to_double (3 / 100) = 1080863910568919 / 36028797018963968"
  by (simp add: double_eval)

lemma to_double_2: "to_double (2 / 100) = 5764607523034235 / 288230376151711744"
  by (simp add: double_eval)

lemma to_double_1: "to_double (1 / 100) = 5764607523034235 / 576460752303423488"
  by (simp add: double_eval)

lemma to_double_minus_1: "to_double (- (1 / 100)) = - (5764607523034235 / 576460752303423488)"
  by (simp add: double_eval)

lemma fractions_one: "fractions_double (points 1 rnd) = [1]"
  by (simp add: fractions_double_def points_def lodash_times_def lodash_sortBy_def
      enumerate_eq_zip to_double_def in_units_def roundTiesToEven_def ties_to_even_def ulp_def
      expo_def scale_def ilog.simps)

lemma fractions_half: "fractions_double (points 2 half_draws) = [1 / 2, 1 / 2]"
  by (simp add: fractions_double_def points_def lodash_times_def lodash_sortBy_def
      enumerate_eq_zip half_draws_def to_double_def in_units_def roundTiesToEven_def
      ties_to_even_def ulp_def expo_def scale_def ilog.simps)

lemma round_1005: "lodash_round_double (1131529406376837 / 1125899906842624) 2
    = 4548635623644201 / 4503599627370496"
  by (simp add: double_eval)

subsection \<open>The amount 1.005 for one person\<close>

lemma raw_1005_1: "rawAmounts_double (1131529406376837 / 1125899906842624) 1 rnd
    = [4548635623644201 / 4503599627370496]"
proof -
  have "rawAmounts_double (1131529406376837 / 1125899906842624) 1 rnd
      = [lodash_round_double (to_double (1131529406376837 / 1125899906842624 * 1)) 2]"
    by (simp only: rawAmounts_double_def fractions_one list.map)
  also have "\<dots> = [4548635623644201 / 4503599627370496]"
    by (simp add: double_eval)
  finally show ?thesis .
qed

lemma diff_1005_1: "diff_double (1131529406376837 / 1125899906842624)
      [4548635623644201 / 4503599627370496] = - (5764607523034235 / 576460752303423488)"
  by (simp add: diff_double_def lodash_sum_double_def double_eval)

lemma last_1005_1: "addToLast_double [4548635623644201 / 4503599627370496]
      (- (5764607523034235 / 576460752303423488)) = [1]"
  by (simp add: addToLast_double_def double_eval)

text \<open>
  Claim C5 says that for every amount \<open>\<ge> 0\<close>, \<open>randomDistribute(amount, 1)\<close> returns
  the single-entry vector \<open>[round(amount, 2)]\<close>, the residual step leaving the single
  rounded share unchanged. For the amount \<open>1.005\<close> the code does not: the double of
  \<open>1.005\<close> lies a little below \<open>1.005\<close> and prints as \<open>1.005\<close>, so \<open>_.round\<close> gives
  \<open>1.01\<close> for the share; the double of \<open>1.01\<close> lies a little above \<open>1.01\<close>, so
  \<open>amount - 1.01\<close> is \<open>-0.005000000000000115\<close>, beyond the tie \<open>-0.005\<close>, the
  residual is \<open>-0.01\<close>, and the function returns \<open>[1]\<close>.
\<close>

theorem randomDistribute_double_single_share:
  "randomDistribute_double (to_double (1005 / 1000)) 1 descending_draws = [1]
   \<and> lodash_round_double (to_double (1005 / 1000)) 2 = to_double (101 / 100)
   \<and> to_double (101 / 100) \<noteq> 1"
  unfolding to_double_1005 to_double_101 randomDistribute_double_def Let_def raw_1005_1
    diff_1005_1 last_1005_1 round_1005
  by simp

subsection \<open>The amount 1.005 for two people\<close>

lemma raw_1005_2: "rawAmounts_double (1131529406376837 / 1125899906842624) 2 half_draws
    = [1 / 2, 1 / 2]"
proof -
  have "rawAmounts_double (1131529406376837 / 1125899906842624) 2 half_draws
      = [lodash_round_double (to_double (1131529406376837 / 1125899906842624 * (1 / 2))) 2,
         lodash_round_double (to_double (1131529406376837 / 1125899906842624 * (1 / 2))) 2]"
    by (simp only: rawAmounts_double_def fractions_half list.map)
  also have "\<dots> = [1 / 2, 1 / 2]"
    by (simp add: double_eval)
  finally show ?thesis .
qed

lemma diff_1005_2: "diff_double (1131529406376837 / 1125899906842624) [1 / 2, 1 / 2] = 0"
  by (simp add: diff_double_def lodash_sum_double_def double_eval)

lemma last_1005_2: "addToLast_double [1 / 2, 1 / 2] 0 = [1 / 2, 1 / 2]"
  by (simp add: addToLast_double_def double_eval)

lemma sum_1005_2: "lodash_round_double (lodash_sum_double [1 / 2, 1 / 2]) 2 = 1"
  by (simp add: lodash_sum_double_def double_eval)

text \<open>
  Claim C1 says that for every amount \<open>\<ge> 0\<close>, every count \<open>\<ge> 1\<close> and all draws in
  \<open>[0, 1)\<close>, the sum of the returned entries, rounded to 2 decimals, equals the amount
  rounded to 2 decimals. For the amount \<open>1.005\<close>, two people and the draw \<open>0.5\<close> the
  code does not: each raw share is \<open>round(0.5025, 2) = 0.5\<close>, their sum is \<open>1\<close>, and
  \<open>amount - 1\<close> is \<open>0.004999999999999893\<close>, short of the tie \<open>0.005\<close>, so the residual
  is \<open>0\<close>. The function returns \<open>[0.5, 0.5]\<close>, whose sum rounds to \<open>1\<close>, while
  \<open>round(1.005, 2)\<close> is \<open>1.01\<close>.
\<close>

theorem randomDistribute_double_sum:
  "randomDistribute_double (to_double (1005 / 1000)) 2 half_draws = [1 / 2, 1 / 2]
   \<and> lodash_round_double
        (lodash_sum_double (randomDistribute_double (to_double (1005 / 1000)) 2 half_draws)) 2 = 1
   \<and> lodash_round_double (to_double (1005 / 1000)) 2 = to_double (101 / 100)
   \<and> to_double (101 / 100) \<noteq> 1"
  unfolding to_double_1005 to_double_101 randomDistribute_double_def Let_def raw_1005_2
    diff_1005_2 last_1005_2 sum_1005_2 round_1005
  by simp

subsection \<open>The amount 0.05 for two people\<close>

lemma raw_5_2: "rawAmounts_double (3602879701896397 / 72057594037927936) 2 half_draws
    = [1080863910568919 / 36028797018963968, 1080863910568919 / 36028797018963968]"
proof -
  have "rawAmounts_double (3602879701896397 / 72057594037927936) 2 half_draws
      = [lodash_round_double (to_double (3602879701896397 / 72057594037927936 * (1 / 2))) 2,
         lodash_round_double (to_double (3602879701896397 / 72057594037927936 * (1 / 2))) 2]"
    by (simp only: rawAmounts_double_def fractions_half list.map)
  also have "\<dots> = [1080863910568919 / 36028797018963968, 1080863910568919 / 36028797018963968]"
    by (simp add: double_eval)
  finally show ?thesis .
qed

lemma diff_5_2: "diff_double (3602879701896397 / 72057594037927936)
      [1080863910568919 / 36028797018963968, 1080863910568919 / 36028797018963968]
    = - (5764607523034235 / 576460752303423488)"
  by (simp add: diff_double_def lodash_sum_double_def double_eval)

lemma last_5_2: "addToLast_double
      [1080863910568919 / 36028797018963968, 1080863910568919 / 36028797018963968]
      (- (5764607523034235 / 576460752303423488))
    = [1080863910568919 / 36028797018963968, 2882303761517117 / 144115188075855872]"
  by (simp add: addToLast_double_def double_eval)

lemma round_last_5_2: "lodash_round_double (2882303761517117 / 144115188075855872) 2
    = 5764607523034235 / 288230376151711744"
  by (simp add: double_eval)

text \<open>
  Claim C9 says that every returned entry is an integer multiple of \<open>0.01\<close>, the last
  entry included, which is the sum of two values rounded to 2 decimals. For the amount
  \<open>0.05\<close>, two people and the draw \<open>0.5\<close> the code does not return such an entry: the
  raw shares are both the double of \<open>0.03\<close> (\<open>0.025\<close> rounded up), the residual is the
  double of \<open>-0.01\<close>, and line 35 adds the two as doubles without rounding the sum to
  2 decimals again. The last entry is \<open>0.019999999999999997\<close>, strictly between the
  doubles of \<open>0.01\<close> and \<open>0.02\<close>; rounding it to 2 decimals would change it to the
  double of \<open>0.02\<close>.
\<close>

theorem randomDistribute_double_last_entry:
  "rawAmounts_double (to_double (5 / 100)) 2 half_draws = [to_double (3 / 100), to_double (3 / 100)]
   \<and> diff_double (to_double (5 / 100)) (rawAmounts_double (to_double (5 / 100)) 2 half_draws)
       = to_double (- (1 / 100))
   \<and> randomDistribute_double (to_double (5 / 100)) 2 half_draws
       = [to_double (3 / 100), 2882303761517117 / 144115188075855872]
   \<and> to_double (1 / 100) < 2882303761517117 / 144115188075855872
   \<and> 2882303761517117 / 144115188075855872 < to_double (2 / 100)
   \<and> lodash_round_double (2882303761517117 / 144115188075855872) 2 = to_double (2 / 100)"
  unfolding to_double_5 to_double_3 to_double_2 to_double_1 to_double_minus_1
    randomDistribute_double_def Let_def raw_5_2 diff_5_2 last_5_2 round_last_5_2
  by simp

section \<open>Properties of the pagination\<close>

lemma totalPages_pos: "1 \<le> c \<Longrightarrow> 1 \<le> totalPages (Some c)"
  by (simp add: totalPages_def pageSize_def)

lemma onClick_range:
  assumes "1 \<le> pages" and "1 \<le> p" and "p \<le> pages"
  shows "1 \<le> onClick b pages p \<and> onClick b pages p \<le> pages"
  using assms by (cases b) auto

lemma clicks_range:
  assumes "1 \<le> pages" and "1 \<le> p" and "p \<le> pages"
  shows "1 \<le> clicks bs pages p \<and> clicks bs pages p \<le> pages"
  using assms(2,3)
proof (induction bs arbitrary: p)
  case Nil
  then show ?case by (simp add: clicks_def)
next
  case (Cons b bs)
  from onClick_range [OF assms(1) Cons.prems]
  have "1 \<le> onClick b pages p" and "onClick b pages p \<le> pages"
    by simp_all
  then have "1 \<le> clicks bs pages (onClick b pages p) \<and> clicks bs pages (onClick b pages p) \<le> pages"
    by (rule Cons.IH)
  then show ?case by (simp add: clicks_def)
qed

text \<open>
  Claim C10. For every \<open>totalPages \<ge> 1\<close> and every page in \<open>[1, totalPages]\<close>, each
  of the four button operations (set to \<open>1\<close>, to \<open>max(1, page - 1)\<close>, to
  \<open>min(totalPages, page + 1)\<close>, to \<open>totalPages\<close>) yields a page that is again in
  \<open>[1, totalPages]\<close>; so the page never leaves the interval, whatever sequence of
  buttons is clicked.
\<close>

theorem page_stays_in_range:
  assumes "1 \<le> pages" and "1 \<le> p" and "p \<le> pages"
  shows "(\<forall>b. 1 \<le> onClick b pages p \<and> onClick b pages p \<le> pages)
       \<and> (\<forall>bs. 1 \<le> clicks bs pages p \<and> clicks bs pages p \<le> pages)"
  using onClick_range [OF assms] clicks_range [OF assms] by blast

theorem page_stays_in_range_witness:
  "(1::int) \<le> 3 \<and> (1::int) \<le> 3 \<and> (3::int) \<le> 3
   \<and> onClick Next 3 3 = 3 \<and> onClick Previous 3 1 = 1
   \<and> (\<forall>b. 1 \<le> onClick b 3 3 \<and> onClick b 3 3 \<le> 3)
   \<and> (\<forall>bs. 1 \<le> clicks bs 3 3 \<and> clicks bs 3 3 \<le> 3)"
  using page_stays_in_range [of 3 3] by simp

end
